theory Spec2Isabelle
  imports Main
begin

section \<open>Values exchanged between the crawler and the portal\<close>

text \<open>
  The crawler of \<^verbatim>\<open>src/crawler.py\<close> is a \<^verbatim>\<open>requests.Session\<close> with three
  operations, \<^verbatim>\<open>login\<close>, \<^verbatim>\<open>search_keyword\<close> and \<^verbatim>\<open>get_link\<close>. Everything
  the Python does beyond returning a value is explicit here: the object's fields are a
  record that each function returns updated, an exception is the \<open>Inl\<close> side of a sum,
  and the network is a parameter (a function from the call made on the session to its
  outcome).

  Python dictionaries are association lists in insertion order. A JSON document is the
  value \<^verbatim>\<open>response.json()\<close> parses it to; numbers are integers (the crawler never
  computes with them).
\<close>

datatype json =
    JNull
  | JBool bool
  | JNum int
  | JStr string
  | JArr "json list"
  | JObj "(string \<times> json) list"

text \<open>A header dictionary: a value may be \<^verbatim>\<open>None\<close> (\<^verbatim>\<open>"X-Token": self.token\<close>).\<close>

type_synonym dict = "(string \<times> string option) list"

type_synonym cookiejar = "(string \<times> string) list"

text \<open>
  The two library serialisers stay symbolic: the string \<^verbatim>\<open>urllib.parse.urlencode(d)\<close>
  is \<open>Urlencode d\<close> and the string \<^verbatim>\<open>json.dumps(j)\<close> is \<open>Json_dumps j\<close>.
\<close>

datatype payload =
    Urlencode "(string \<times> string) list"
  | Json_dumps json

text \<open>
  A call on the session, with the arguments the crawler passes:
  \<^verbatim>\<open>self.get(url, headers=...)\<close> and
  \<^verbatim>\<open>self.post(url, headers=..., data=..., json=..., allow_redirects=...)\<close>.
\<close>

datatype http_call =
    SessionGet string dict
  | SessionPost string dict "payload option" "json option" "bool option"

text \<open>
  Of a response the crawler reads the status (in \<^verbatim>\<open>raise_for_status\<close>) and the
  parsed body (\<^verbatim>\<open>response.json()\<close>; \<open>None\<close> when the body is not JSON).
\<close>

record response =
  status_code :: nat
  json_body :: "json option"

datatype exn =
    RequestException string
  | HTTPError nat
  | JSONDecodeError
  | KeyError string
  | TypeError

text \<open>
  Log records: the level, the literal part of the f-string and the value interpolated
  into it (\<^verbatim>\<open>f"GET request failed: {e}"\<close>, \<^verbatim>\<open>f"Token: {self.token}"\<close>).
\<close>

datatype level = DEBUG | ERROR

datatype log_arg = Exn exn | Token "string option"

type_synonym log_record = "level \<times> string \<times> log_arg"

section \<open>The crawler object\<close>

text \<open>
  The fields \<open>username\<close>, \<open>password\<close>, \<open>token\<close>, \<open>user_agent\<close> are those set by
  \<^verbatim>\<open>__init__\<close>; \<open>cookies\<close> is the session's cookie jar, a dictionary from the name of
  a cookie to its value (domains and paths are left out); \<open>logger\<close>
  holds the records handed to the logger, oldest first (its level is \<^verbatim>\<open>DEBUG\<close>, so
  every record is kept). Two fields are not fields of the Python object: \<open>sent\<close> records
  every call made on the session with its outcome (the message of the exception raised
  or the response), in order, and \<open>world\<close> is the state of everything beyond the client
  (the servers).
\<close>

record 'w crawler =
  username :: string
  password :: string
  token :: "string option"
  user_agent :: string
  cookies :: cookiejar
  logger :: "log_record list"
  sent :: "(http_call \<times> (string + response)) list"
  world :: 'w

text \<open>
  The network: given the state of the world, the cookie jar and a call, it yields either
  the message of the \<^verbatim>\<open>RequestException\<close> that \<^verbatim>\<open>Session.get\<close> or
  \<^verbatim>\<open>Session.post\<close> raises or the response, together with the cookie jar after the
  exchange and the next state of the world.
\<close>

type_synonym 'w transport =
  "'w \<Rightarrow> cookiejar \<Rightarrow> http_call \<Rightarrow> (string + response) \<times> cookiejar \<times> 'w"

definition LOGIN_URL :: string where
  "LOGIN_URL = ''https://login.coupang.com/login/login.pang''"

definition LOGIN_PROCESS_URL :: string where
  "LOGIN_PROCESS_URL = ''https://login.coupang.com/login/loginProcess.pang''"

definition POSTLOGIN_URL :: string where
  "POSTLOGIN_URL = ''https://partners.coupang.com/api/v1/postlogin''"

definition SEARCH_URL :: string where
  "SEARCH_URL = ''https://partners.coupang.com/api/v1/search''"

definition BANNER_URL :: string where
  "BANNER_URL = ''https://partners.coupang.com/api/v1/banner/iframe/url''"

definition DEFAULT_USER_AGENT :: string where
  "DEFAULT_USER_AGENT = ''Mozilla/5.0 (Linux; Android 13; Redmi Note 10 Pro) AppleWebKit/537.36 (KHTML, like Gecko) Chrome/101.0.0.0 Mobile Safari/537.36''"

text \<open>\<^verbatim>\<open>__init__\<close>: \<^verbatim>\<open>user_agent or "Mozilla/5.0 ..."\<close> takes the default for
  \<^verbatim>\<open>None\<close> and for the empty string.\<close>

definition init :: "string \<Rightarrow> string \<Rightarrow> string option \<Rightarrow> 'w \<Rightarrow> 'w crawler" where
  "init u p ua w =
     \<lparr> username = u, password = p, token = None,
       user_agent = (case ua of None \<Rightarrow> DEFAULT_USER_AGENT
                     | Some a \<Rightarrow> if a = [] then DEFAULT_USER_AGENT else a),
       cookies = [], logger = [], sent = [], world = w \<rparr>"

section \<open>Headers and token\<close>

text \<open>\<^verbatim>\<open>d[k] = v\<close>: an existing key keeps its place, a new key goes last.\<close>

fun dict_set :: "'k \<Rightarrow> 'v \<Rightarrow> ('k \<times> 'v) list \<Rightarrow> ('k \<times> 'v) list" where
  "dict_set k v [] = [(k, v)]"
| "dict_set k v ((k', v') # d) =
     (if k' = k then (k, v) # d else (k', v') # dict_set k v d)"

text \<open>\<^verbatim>\<open>{**a, **b}\<close>: the items of \<open>a\<close>, then each item of \<open>b\<close> stored in turn.\<close>

definition dict_merge :: "('k \<times> 'v) list \<Rightarrow> ('k \<times> 'v) list \<Rightarrow> ('k \<times> 'v) list" where
  "dict_merge a b = foldl (\<lambda>d (k, v). dict_set k v d) a b"

text \<open>\<^verbatim>\<open>headers or alt\<close>: \<^verbatim>\<open>None\<close> and the empty dictionary are both falsy.\<close>

definition or_dict :: "dict option \<Rightarrow> dict \<Rightarrow> dict" where
  "or_dict headers alt =
     (case headers of None \<Rightarrow> alt | Some h \<Rightarrow> if h = [] then alt else h)"

definition default_headers :: "'w crawler \<Rightarrow> dict" where
  "default_headers c =
     [(''User-Agent'', Some (user_agent c)),
      (''accept-language'', Some ''ko,ko-KR;q=0.9,en;q=0.8,en-US;q=0.7'')]"

definition get_headers :: "'w crawler \<Rightarrow> dict option \<Rightarrow> dict" where
  "get_headers c headers = dict_merge (default_headers c) (or_dict headers [])"

text \<open>\<^verbatim>\<open>self.cookies.get('AFATK')\<close>: the cookie's value, \<^verbatim>\<open>None\<close> when there is
  none of that name.\<close>

definition get_token :: "'w crawler \<Rightarrow> string option" where
  "get_token c = map_of (cookies c) ''AFATK''"

section \<open>Requests\<close>

text \<open>
  \<^verbatim>\<open>Response.raise_for_status()\<close> of the requests library raises \<^verbatim>\<open>HTTPError\<close>
  for the client-error and server-error statuses, 400 to 599, and returns otherwise.
\<close>

definition raise_for_status :: "response \<Rightarrow> exn + response" where
  "raise_for_status r =
     (if 400 \<le> status_code r \<and> status_code r < 600
      then Inl (HTTPError (status_code r)) else Inr r)"

text \<open>\<^verbatim>\<open>HTTPError\<close> and the library's \<^verbatim>\<open>JSONDecodeError\<close> derive from
  \<^verbatim>\<open>RequestException\<close>; \<^verbatim>\<open>KeyError\<close> and \<^verbatim>\<open>TypeError\<close> are built-in.\<close>

fun is_request_exception :: "exn \<Rightarrow> bool" where
  "is_request_exception (RequestException _) = True"
| "is_request_exception (HTTPError _) = True"
| "is_request_exception JSONDecodeError = True"
| "is_request_exception (KeyError _) = False"
| "is_request_exception TypeError = False"

text \<open>One call on the session: the jar and the world move on, the call is recorded.\<close>

definition session_call ::
  "'w transport \<Rightarrow> http_call \<Rightarrow> 'w crawler \<Rightarrow> (exn + response) \<times> 'w crawler" where
  "session_call T call c =
     (case T (world c) (cookies c) call of
        (out, jar, w) \<Rightarrow>
          ((case out of Inl m \<Rightarrow> Inl (RequestException m) | Inr r \<Rightarrow> Inr r),
           c\<lparr>cookies := jar, sent := sent c @ [(call, out)], world := w\<rparr>))"

definition logger_error :: "string \<Rightarrow> exn \<Rightarrow> 'w crawler \<Rightarrow> 'w crawler" where
  "logger_error msg e c = c\<lparr>logger := logger c @ [(ERROR, msg, Exn e)]\<rparr>"

definition logger_debug :: "string \<Rightarrow> string option \<Rightarrow> 'w crawler \<Rightarrow> 'w crawler" where
  "logger_debug msg t c = c\<lparr>logger := logger c @ [(DEBUG, msg, Token t)]\<rparr>"

text \<open>
  The body of the two wrappers: the \<^verbatim>\<open>try\<close> block makes the call and checks the
  status; \<^verbatim>\<open>except requests.exceptions.RequestException\<close> logs and re-raises, any
  other exception passes through unlogged.
\<close>

definition try_request ::
  "'w transport \<Rightarrow> string \<Rightarrow> http_call \<Rightarrow> 'w crawler \<Rightarrow> (exn + response) \<times> 'w crawler" where
  "try_request T msg call c =
     (case session_call T call c of
        (out, c1) \<Rightarrow>
          (case (case out of Inl e \<Rightarrow> Inl e | Inr r \<Rightarrow> raise_for_status r) of
             Inr r \<Rightarrow> (Inr r, c1)
           | Inl e \<Rightarrow>
               if is_request_exception e then (Inl e, logger_error msg e c1)
               else (Inl e, c1)))"

text \<open>\<^verbatim>\<open>__get\<close> and \<^verbatim>\<open>__post\<close> (the private methods of the class).\<close>

definition crawler_get ::
  "'w transport \<Rightarrow> string \<Rightarrow> dict option \<Rightarrow> 'w crawler \<Rightarrow> (exn + response) \<times> 'w crawler" where
  "crawler_get T url headers c =
     try_request T ''GET request failed: ''
       (SessionGet url (or_dict headers (get_headers c None))) c"

definition crawler_post ::
  "'w transport \<Rightarrow> string \<Rightarrow> dict option \<Rightarrow> payload option \<Rightarrow> json option \<Rightarrow> bool option
     \<Rightarrow> 'w crawler \<Rightarrow> (exn + response) \<times> 'w crawler" where
  "crawler_post T url headers data json_data allow_redirects c =
     try_request T ''POST request failed: ''
       (SessionPost url (or_dict headers (get_headers c None)) data json_data allow_redirects) c"

section \<open>The three operations\<close>

text \<open>
  \<^verbatim>\<open>login\<close>: its three requests are named after the statements that make them
  (\<^verbatim>\<open>self.__get(LOGIN_URL)\<close>, \<^verbatim>\<open>self.__post(LOGIN_PROCESS_URL, ...)\<close>,
  \<^verbatim>\<open>self.__get(POSTLOGIN_URL)\<close>); an exception raised by one of them ends the method.
\<close>

definition login_headers :: "'w crawler \<Rightarrow> dict" where
  "login_headers c =
     get_headers c
       (Some [(''Content-Type'', Some ''application/x-www-form-urlencoded; charset=UTF-8'')])"

definition login_data :: "'w crawler \<Rightarrow> payload" where
  "login_data c = Urlencode [(''email'', username c), (''password'', password c)]"

definition get_login_page ::
  "'w transport \<Rightarrow> 'w crawler \<Rightarrow> (exn + response) \<times> 'w crawler" where
  "get_login_page T c = crawler_get T LOGIN_URL None c"

definition post_login_process ::
  "'w transport \<Rightarrow> 'w crawler \<Rightarrow> (exn + response) \<times> 'w crawler" where
  "post_login_process T c =
     crawler_post T LOGIN_PROCESS_URL (Some (login_headers c)) (Some (login_data c)) None
       (Some True) c"

definition get_postlogin ::
  "'w transport \<Rightarrow> 'w crawler \<Rightarrow> (exn + response) \<times> 'w crawler" where
  "get_postlogin T c = crawler_get T POSTLOGIN_URL None c"

definition login :: "'w transport \<Rightarrow> 'w crawler \<Rightarrow> (exn + bool) \<times> 'w crawler" where
  "login T c =
     (case get_login_page T c of
        (Inl e, c1) \<Rightarrow> (Inl e, c1)
      | (Inr _, c1) \<Rightarrow>
          (case post_login_process T c1 of
             (Inl e, c2) \<Rightarrow> (Inl e, c2)
           | (Inr _, c2) \<Rightarrow>
               (case get_postlogin T c2 of
                  (Inl e, c3) \<Rightarrow> (Inl e, c3)
                | (Inr _, c3) \<Rightarrow>
                    (let c4 = c3\<lparr>token := get_token c3\<rparr>;
                         c5 = logger_debug ''Token: '' (token c4) c4
                     in (Inr (token c5 \<noteq> None), c5)))))"

text \<open>\<^verbatim>\<open>response.json()\<close> and \<^verbatim>\<open>value[key]\<close> with a string key: a dictionary
  without the key raises \<^verbatim>\<open>KeyError\<close>, any other value raises \<^verbatim>\<open>TypeError\<close>.\<close>

definition response_json :: "response \<Rightarrow> exn + json" where
  "response_json r = (case json_body r of None \<Rightarrow> Inl JSONDecodeError | Some j \<Rightarrow> Inr j)"

fun subscript :: "json \<Rightarrow> string \<Rightarrow> exn + json" where
  "subscript (JObj kvs) k = (case map_of kvs k of None \<Rightarrow> Inl (KeyError k) | Some v \<Rightarrow> Inr v)"
| "subscript _ k = Inl TypeError"

text \<open>\<^verbatim>\<open>response.json()['data'][field]\<close>, evaluated left to right.\<close>

definition data_field :: "string \<Rightarrow> response \<Rightarrow> exn + json" where
  "data_field field r =
     (case response_json r of
        Inl e \<Rightarrow> Inl e
      | Inr j \<Rightarrow> (case subscript j ''data'' of Inl e \<Rightarrow> Inl e | Inr d \<Rightarrow> subscript d field))"

definition search_headers :: "'w crawler \<Rightarrow> dict" where
  "search_headers c =
     get_headers c
       (Some [(''Content-Type'', Some ''application/json;charset=UTF-8''),
              (''X-Token'', token c)])"

definition search_data :: "string \<Rightarrow> payload" where
  "search_data keyword =
     Json_dumps (JObj [(''filter'', JStr keyword),
                       (''page'', JObj [(''pageNumber'', JNum 0), (''size'', JNum 36)])])"

definition search_keyword ::
  "'w transport \<Rightarrow> string \<Rightarrow> 'w crawler \<Rightarrow> (exn + json) \<times> 'w crawler" where
  "search_keyword T keyword c =
     (case crawler_post T SEARCH_URL (Some (search_headers c))
             (Some (search_data keyword)) None None c of
        (Inl e, c1) \<Rightarrow> (Inl e, c1)
      | (Inr response, c1) \<Rightarrow> (data_field ''products'' response, c1))"

definition link_headers :: "'w crawler \<Rightarrow> dict" where
  "link_headers c =
     get_headers c
       (Some [(''content-type'', Some ''application/json;charset=UTF-8''),
              (''X-Token'', token c)])"

definition get_link ::
  "'w transport \<Rightarrow> json \<Rightarrow> 'w crawler \<Rightarrow> (exn + json) \<times> 'w crawler" where
  "get_link T product c =
     (case crawler_post T BANNER_URL (Some (link_headers c)) None
             (Some (JObj [(''product'', product)])) None c of
        (Inl e, c1) \<Rightarrow> (Inl e, c1)
      | (Inr response, c1) \<Rightarrow> (data_field ''shortUrl'' response, c1))"

section \<open>Notions used by the properties\<close>

text \<open>
  An exchange has failed when the session call raised or the status is one on which
  \<open>raise_for_status\<close> raises; \<open>failure\<close> gives the exception of a failed exchange.
\<close>

definition failure :: "string + response \<Rightarrow> exn option" where
  "failure out =
     (case out of
        Inl m \<Rightarrow> Some (RequestException m)
      | Inr r \<Rightarrow> (case raise_for_status r of Inl e \<Rightarrow> Some e | Inr _ \<Rightarrow> None))"

text \<open>The call \<^verbatim>\<open>search_keyword\<close> and the call \<^verbatim>\<open>get_link\<close> make, written out.\<close>

definition search_call :: "string \<Rightarrow> 'w crawler \<Rightarrow> http_call" where
  "search_call k c =
     SessionPost SEARCH_URL
       [(''User-Agent'', Some (user_agent c)),
        (''accept-language'', Some ''ko,ko-KR;q=0.9,en;q=0.8,en-US;q=0.7''),
        (''Content-Type'', Some ''application/json;charset=UTF-8''),
        (''X-Token'', token c)]
       (Some (Json_dumps
          (JObj [(''filter'', JStr k),
                 (''page'', JObj [(''pageNumber'', JNum 0), (''size'', JNum 36)])])))
       None None"

definition link_call :: "json \<Rightarrow> 'w crawler \<Rightarrow> http_call" where
  "link_call p c =
     SessionPost BANNER_URL
       [(''User-Agent'', Some (user_agent c)),
        (''accept-language'', Some ''ko,ko-KR;q=0.9,en;q=0.8,en-US;q=0.7''),
        (''content-type'', Some ''application/json;charset=UTF-8''),
        (''X-Token'', token c)]
       None (Some (JObj [(''product'', p)])) None"

text \<open>The three calls of \<^verbatim>\<open>login\<close>, written out.\<close>

definition login_calls :: "'w crawler \<Rightarrow> http_call list" where
  "login_calls c =
     [SessionGet LOGIN_URL
        [(''User-Agent'', Some (user_agent c)),
         (''accept-language'', Some ''ko,ko-KR;q=0.9,en;q=0.8,en-US;q=0.7'')],
      SessionPost LOGIN_PROCESS_URL
        [(''User-Agent'', Some (user_agent c)),
         (''accept-language'', Some ''ko,ko-KR;q=0.9,en;q=0.8,en-US;q=0.7''),
         (''Content-Type'', Some ''application/x-www-form-urlencoded; charset=UTF-8'')]
        (Some (Urlencode [(''email'', username c), (''password'', password c)]))
        None (Some True),
      SessionGet POSTLOGIN_URL
        [(''User-Agent'', Some (user_agent c)),
         (''accept-language'', Some ''ko,ko-KR;q=0.9,en;q=0.8,en-US;q=0.7'')]]"

text \<open>A page of products: a sequence of at most 36 mapping-shaped elements.\<close>

fun is_mapping :: "json \<Rightarrow> bool" where
  "is_mapping (JObj _) = True"
| "is_mapping _ = False"

fun within_page :: "json \<Rightarrow> bool" where
  "within_page (JArr xs) = (length xs \<le> 36 \<and> list_all is_mapping xs)"
| "within_page _ = False"

text \<open>The keyword of the example run, U+C2E0 U+BC1C, as its UTF-8 bytes.\<close>

definition shoes :: string where
  "shoes = [CHR 0xEC, CHR 0x8B, CHR 0xA0, CHR 0xEB, CHR 0xB0, CHR 0x9C]"

subsection \<open>A scripted server\<close>

text \<open>
  A server for concrete runs: its state is a script, one entry for each call to come,
  giving the outcome of the call and the cookies it sets. Past the end of the script
  the connection is refused.
\<close>

type_synonym script = "((string + response) \<times> cookiejar) list"

definition scripted :: "script transport" where
  "scripted w jar call =
     (case w of
        [] \<Rightarrow> (Inl ''connection refused'', jar, [])
      | (out, set_cookies) # rest \<Rightarrow> (out, dict_merge jar set_cookies, rest))"

definition ok_page :: response where
  "ok_page = \<lparr> status_code = 200, json_body = None \<rparr>"

definition ok_json :: "json \<Rightarrow> response" where
  "ok_json j = \<lparr> status_code = 200, json_body = Some j \<rparr>"

definition forbidden :: response where
  "forbidden = \<lparr> status_code = 403, json_body = None \<rparr>"

definition redirect :: response where
  "redirect = \<lparr> status_code = 302, json_body = None \<rparr>"

definition client :: "script \<Rightarrow> script crawler" where
  "client w = init ''u'' ''p'' None w"

definition a_product :: json where
  "a_product = JObj [(''productId'', JNum 7), (''title'', JStr ''shoe'')]"

definition products_json :: "json \<Rightarrow> json" where
  "products_json ps = JObj [(''data'', JObj [(''products'', ps)])]"

definition short_url_json :: "string \<Rightarrow> json" where
  "short_url_json u = JObj [(''data'', JObj [(''shortUrl'', JStr u)])]"

section \<open>Header merge\<close>

lemma map_of_dict_set: "map_of (dict_set k v d) = (map_of d)(k \<mapsto> v)"
  by (induction d) auto

lemma map_of_dict_merge:
  "distinct (map fst b) \<Longrightarrow> map_of (dict_merge a b) = map_of a ++ map_of b"
  unfolding dict_merge_def
proof (induction b arbitrary: a)
  case Nil
  then show ?case by simp
next
  case (Cons p b)
  obtain k v where p: "p = (k, v)" by (cases p)
  from Cons.prems p have fresh: "k \<notin> dom (map_of b)" and d: "distinct (map fst b)"
    by (auto simp: dom_map_of_conv_image_fst)
  have "map_of (foldl (\<lambda>d (k, v). dict_set k v d) (dict_set k v a) b)
          = map_of (dict_set k v a) ++ map_of b"
    by (rule Cons.IH [OF d])
  also have "\<dots> = (map_of a)(k \<mapsto> v) ++ map_of b"
    by (simp only: map_of_dict_set)
  also have "\<dots> = (map_of a ++ map_of b)(k \<mapsto> v)"
    using fresh by (rule map_add_upd_left)
  also have "\<dots> = map_of a ++ map_of ((k, v) # b)"
    by (simp only: map_of.simps map_add_upd fst_conv snd_conv)
  finally show ?case by (simp only: p foldl.simps prod.case)
qed

lemma default_headers_keys:
  "map_of (default_headers c) =
     [''User-Agent'' \<mapsto> Some (user_agent c),
      ''accept-language'' \<mapsto> Some ''ko,ko-KR;q=0.9,en;q=0.8,en-US;q=0.7'']"
  by (simp add: default_headers_def fun_eq_iff)

lemma get_headers_None: "get_headers c None = default_headers c"
  by (simp add: get_headers_def or_dict_def dict_merge_def)

lemma map_of_get_headers:
  "distinct (map fst h) \<Longrightarrow>
     map_of (get_headers c (Some h)) = map_of (default_headers c) ++ map_of h"
  by (simp add: get_headers_def or_dict_def map_of_dict_merge)

text \<open>
  Claim C8. For every custom header dictionary \<open>h\<close> (its keys distinct, as those of a
  dictionary are), the headers \<^verbatim>\<open>__get_headers(h)\<close> returns are the defaults
  overridden key by key: a key of \<open>h\<close> has the value \<open>h\<close> gives it, any other key has
  its default value; the defaults are exactly \<^verbatim>\<open>User-Agent\<close> and
  \<^verbatim>\<open>accept-language\<close>, and they are the result when no headers are passed.
\<close>

theorem get_headers_override:
  assumes "distinct (map fst h)"
  shows "map_of (get_headers c (Some h)) k =
           (case map_of h k of Some v \<Rightarrow> Some v | None \<Rightarrow> map_of (default_headers c) k)
         \<and> map_of (default_headers c) =
             [''User-Agent'' \<mapsto> Some (user_agent c),
              ''accept-language'' \<mapsto> Some ''ko,ko-KR;q=0.9,en;q=0.8,en-US;q=0.7'']
         \<and> get_headers c None = default_headers c"
proof -
  have "map_of (get_headers c (Some h)) k = (map_of (default_headers c) ++ map_of h) k"
    using assms by (simp only: map_of_get_headers)
  then show ?thesis
    by (simp add: map_add_def default_headers_keys get_headers_None split: option.splits)
qed

theorem get_headers_override_witness:
  "distinct (map fst [(''User-Agent'', Some ''bot''), (''X-Token'', None)]) \<and>
   map_of (get_headers (init ''u'' ''p'' None ())
            (Some [(''User-Agent'', Some ''bot''), (''X-Token'', None)])) ''User-Agent''
     = Some (Some ''bot'') \<and>
   map_of (get_headers (init ''u'' ''p'' None ())
            (Some [(''User-Agent'', Some ''bot''), (''X-Token'', None)])) ''accept-language''
     = Some (Some ''ko,ko-KR;q=0.9,en;q=0.8,en-US;q=0.7'')"
proof -
  let ?h = "[(''User-Agent'', Some ''bot''), (''X-Token'', None :: string option)]"
  have d: "distinct (map fst ?h)" by simp
  show ?thesis
    using d get_headers_override [OF d, of "init ''u'' ''p'' None ()" "''User-Agent''"]
      get_headers_override [OF d, of "init ''u'' ''p'' None ()" "''accept-language''"]
    by (simp add: default_headers_def)
qed

section \<open>One wrapped request\<close>

text \<open>
  What \<^verbatim>\<open>__get\<close> and \<^verbatim>\<open>__post\<close> do with the outcome of their call: a failed
  exchange is logged once and raised, a successful one is returned and leaves the log
  alone. Either way the call is made once.
\<close>

lemma try_request_failure:
  assumes "T (world c) (cookies c) call = (out, jar, w)" and "failure out = Some e"
  shows "try_request T msg call c =
           (Inl e, c\<lparr>cookies := jar, logger := logger c @ [(ERROR, msg, Exn e)],
                     sent := sent c @ [(call, out)], world := w\<rparr>)"
  using assms
  by (auto simp: try_request_def session_call_def failure_def raise_for_status_def
      logger_error_def split: sum.splits if_splits)

lemma try_request_success:
  assumes "T (world c) (cookies c) call = (out, jar, w)" and "failure out = None"
  shows "\<exists>r. out = Inr r \<and> try_request T msg call c =
           (Inr r, c\<lparr>cookies := jar, sent := sent c @ [(call, out)], world := w\<rparr>)"
  using assms
  by (auto simp: try_request_def session_call_def failure_def raise_for_status_def
      logger_error_def split: sum.splits if_splits)

lemma try_request_cases:
  obtains (failed) e out where
      "fst (try_request T msg call c) = Inl e" "failure out = Some e"
      "sent (snd (try_request T msg call c)) = sent c @ [(call, out)]"
      "logger (snd (try_request T msg call c)) = logger c @ [(ERROR, msg, Exn e)]"
    | (succeeded) r where
      "fst (try_request T msg call c) = Inr r" "failure (Inr r) = None"
      "sent (snd (try_request T msg call c)) = sent c @ [(call, Inr r)]"
      "logger (snd (try_request T msg call c)) = logger c"
proof -
  obtain out jar w where t: "T (world c) (cookies c) call = (out, jar, w)"
    by (cases "T (world c) (cookies c) call") auto
  show thesis
  proof (cases "failure out")
    case None
    from try_request_success [where T=T and c=c and msg=msg, OF t None] obtain r where
      "out = Inr r" "try_request T msg call c =
           (Inr r, c\<lparr>cookies := jar, sent := sent c @ [(call, out)], world := w\<rparr>)"
      by blast
    with None show thesis by (intro succeeded [of r]) simp_all
  next
    case (Some e)
    from try_request_failure [where T=T and c=c and msg=msg, OF t Some] show thesis
      by (intro failed [of e out]) (simp_all add: Some)
  qed
qed

lemma try_request_frame:
  "username (snd (try_request T msg call c)) = username c"
  "password (snd (try_request T msg call c)) = password c"
  "user_agent (snd (try_request T msg call c)) = user_agent c"
  "token (snd (try_request T msg call c)) = token c"
  by (auto simp: try_request_def session_call_def logger_error_def
      split: prod.splits sum.splits)

lemma login_calls_frame:
  "username c' = username c \<Longrightarrow> password c' = password c \<Longrightarrow> user_agent c' = user_agent c
     \<Longrightarrow> login_calls c' = login_calls c"
  by (simp add: login_calls_def)

lemma get_login_page_eq:
  "get_login_page T c = try_request T ''GET request failed: '' (login_calls c ! 0) c"
  by (simp add: get_login_page_def crawler_get_def login_calls_def get_headers_None
      default_headers_def or_dict_def)

lemma post_login_process_eq:
  "post_login_process T c = try_request T ''POST request failed: '' (login_calls c ! 1) c"
  by (simp add: post_login_process_def crawler_post_def login_calls_def login_headers_def
      login_data_def get_headers_def dict_merge_def default_headers_def or_dict_def)

lemma get_postlogin_eq:
  "get_postlogin T c = try_request T ''GET request failed: '' (login_calls c ! 2) c"
  by (simp add: get_postlogin_def crawler_get_def login_calls_def get_headers_None
      default_headers_def or_dict_def)


section \<open>The runs of login\<close>

text \<open>
  A run of \<^verbatim>\<open>login\<close> ends in one of four ways: the first, second or third request
  fails, or all three succeed and the token is read from the jar.
\<close>

lemma login_outcome:
  assumes "login T c = (res, c')"
  shows "(\<exists>e out1. res = Inl e \<and> failure out1 = Some e \<and>
            sent c' = sent c @ [(login_calls c ! 0, out1)] \<and>
            logger c' = logger c @ [(ERROR, ''GET request failed: '', Exn e)] \<and>
            token c' = token c)
       \<or> (\<exists>e r1 out2. res = Inl e \<and> failure (Inr r1) = None \<and> failure out2 = Some e \<and>
            sent c' = sent c @ [(login_calls c ! 0, Inr r1), (login_calls c ! 1, out2)] \<and>
            logger c' = logger c @ [(ERROR, ''POST request failed: '', Exn e)] \<and>
            token c' = token c)
       \<or> (\<exists>e r1 r2 out3. res = Inl e \<and> failure (Inr r1) = None \<and> failure (Inr r2) = None \<and>
            failure out3 = Some e \<and>
            sent c' = sent c @ [(login_calls c ! 0, Inr r1), (login_calls c ! 1, Inr r2),
                                (login_calls c ! 2, out3)] \<and>
            logger c' = logger c @ [(ERROR, ''GET request failed: '', Exn e)] \<and>
            token c' = token c)
       \<or> (\<exists>r1 r2 r3. res = Inr (map_of (cookies c') ''AFATK'' \<noteq> None) \<and>
            failure (Inr r1) = None \<and> failure (Inr r2) = None \<and> failure (Inr r3) = None \<and>
            sent c' = sent c @ [(login_calls c ! 0, Inr r1), (login_calls c ! 1, Inr r2),
                                (login_calls c ! 2, Inr r3)] \<and>
            logger c' = logger c @ [(DEBUG, ''Token: '', Token (map_of (cookies c') ''AFATK''))] \<and>
            token c' = map_of (cookies c') ''AFATK'')"
proof -
  let ?get = "''GET request failed: ''" and ?post = "''POST request failed: ''"
  let ?s1 = "try_request T ?get (login_calls c ! 0) c"
  let ?c1 = "snd ?s1"
  let ?s2 = "try_request T ?post (login_calls c ! 1) ?c1"
  let ?c2 = "snd ?s2"
  let ?s3 = "try_request T ?get (login_calls c ! 2) ?c2"
  let ?c3 = "snd ?s3"
  have calls1: "login_calls ?c1 = login_calls c"
    by (rule login_calls_frame) (simp_all only: try_request_frame)
  have "login_calls ?c2 = login_calls ?c1"
    by (rule login_calls_frame) (simp_all only: try_request_frame)
  with calls1 have calls2: "login_calls ?c2 = login_calls c"
    by (rule_tac trans)
  have step1: "get_login_page T c = ?s1" by (rule get_login_page_eq)
  have step2: "post_login_process T ?c1 = ?s2" by (simp only: post_login_process_eq calls1)
  have step3: "get_postlogin T ?c2 = ?s3" by (simp only: get_postlogin_eq calls2)
  have e1: "get_login_page T c = (fst ?s1, ?c1)" by (simp only: step1 prod.collapse)
  have e2: "post_login_process T ?c1 = (fst ?s2, ?c2)" by (simp only: step2 prod.collapse)
  have e3: "get_postlogin T ?c2 = (fst ?s3, ?c3)" by (simp only: step3 prod.collapse)
  show ?thesis
  proof (rule try_request_cases [of T ?get "login_calls c ! 0" c])
    fix e out
    assume a: "fst ?s1 = Inl e" "failure out = Some e"
      "sent ?c1 = sent c @ [(login_calls c ! 0, out)]"
      "logger ?c1 = logger c @ [(ERROR, ?get, Exn e)]"
    from a(1) have "login T c = (Inl e, ?c1)"
      by (simp only: login_def e1 a(1) prod.case sum.case)
    with assms have "res = Inl e" "c' = ?c1" by simp_all
    with a show ?thesis by (auto simp: try_request_frame)
  next
    fix r1
    assume a1: "fst ?s1 = Inr r1" "failure (Inr r1) = None"
      "sent ?c1 = sent c @ [(login_calls c ! 0, Inr r1)]"
      "logger ?c1 = logger c"
    show ?thesis
    proof (rule try_request_cases [of T ?post "login_calls c ! 1" ?c1])
      fix e out
      assume a: "fst ?s2 = Inl e" "failure out = Some e"
        "sent ?c2 = sent ?c1 @ [(login_calls c ! 1, out)]"
        "logger ?c2 = logger ?c1 @ [(ERROR, ?post, Exn e)]"
      from a1(1) a(1) have "login T c = (Inl e, ?c2)"
        by (simp only: login_def e1 e2 a1(1) a(1) prod.case sum.case)
      with assms have "res = Inl e" "c' = ?c2" by simp_all
      with a a1 show ?thesis by (auto simp: try_request_frame)
    next
      fix r2
      assume a2: "fst ?s2 = Inr r2" "failure (Inr r2) = None"
        "sent ?c2 = sent ?c1 @ [(login_calls c ! 1, Inr r2)]"
        "logger ?c2 = logger ?c1"
      show ?thesis
      proof (rule try_request_cases [of T ?get "login_calls c ! 2" ?c2])
        fix e out
        assume a: "fst ?s3 = Inl e" "failure out = Some e"
          "sent ?c3 = sent ?c2 @ [(login_calls c ! 2, out)]"
          "logger ?c3 = logger ?c2 @ [(ERROR, ?get, Exn e)]"
        from a1(1) a2(1) a(1) have "login T c = (Inl e, ?c3)"
          by (simp only: login_def e1 e2 e3 a1(1) a2(1) a(1) prod.case sum.case)
        with assms have "res = Inl e" "c' = ?c3" by simp_all
        with a a1 a2 show ?thesis by (auto simp: try_request_frame)
      next
        fix r3
        assume a3: "fst ?s3 = Inr r3" "failure (Inr r3) = None"
          "sent ?c3 = sent ?c2 @ [(login_calls c ! 2, Inr r3)]"
          "logger ?c3 = logger ?c2"
        let ?c5 = "logger_debug ''Token: '' (get_token ?c3) (?c3\<lparr>token := get_token ?c3\<rparr>)"
        from a1(1) a2(1) a3(1) have "login T c = (Inr (get_token ?c3 \<noteq> None), ?c5)"
          by (simp only: login_def e1 e2 e3 a1(1) a2(1) a3(1) prod.case sum.case Let_def)
            (simp add: logger_debug_def)
        with assms have "res = Inr (get_token ?c3 \<noteq> None)" "c' = ?c5" by simp_all
        with a1 a2 a3 show ?thesis
          by (auto simp: logger_debug_def get_token_def)
      qed
    qed
  qed
qed


section \<open>Concrete runs\<close>

text \<open>The definitions a run against the scripted server unfolds.\<close>

lemmas run_defs =
  login_def get_login_page_def post_login_process_def get_postlogin_def
  search_keyword_def get_link_def crawler_get_def crawler_post_def try_request_def
  session_call_def scripted_def raise_for_status_def logger_error_def logger_debug_def
  get_headers_def dict_merge_def or_dict_def default_headers_def login_headers_def
  login_data_def search_headers_def search_data_def link_headers_def get_token_def
  data_field_def response_json_def init_def ok_page_def ok_json_def products_json_def
  short_url_json_def login_calls_def search_call_def link_call_def failure_def
  forbidden_def redirect_def client_def a_product_def

section \<open>Properties of login\<close>





text \<open>
  Claim C10. When \<^verbatim>\<open>login\<close> raises (one of its three requests has failed), the
  token is the one the client had before the call.
\<close>

theorem login_failure_keeps_token:
  assumes "login T c = (Inl e, c')"
  shows "token c' = token c"
  using login_outcome [OF assms] by auto

theorem login_failure_keeps_token_witness:
  "login scripted ((client [(Inr ok_page, []), (Inl ''timed out'', [])])\<lparr>token := Some ''old''\<rparr>)
     = (Inl (RequestException ''timed out''),
        snd (login scripted
          ((client [(Inr ok_page, []), (Inl ''timed out'', [])])\<lparr>token := Some ''old''\<rparr>))) \<and>
   token (snd (login scripted
          ((client [(Inr ok_page, []), (Inl ''timed out'', [])])\<lparr>token := Some ''old''\<rparr>)))
     = Some ''old''"
proof -
  let ?c = "(client [(Inr ok_page, []), (Inl ''timed out'', [])])\<lparr>token := Some ''old''\<rparr>"
  have run: "login scripted ?c = (Inl (RequestException ''timed out''), snd (login scripted ?c))"
    by (simp add: run_defs)
  from login_failure_keeps_token [OF run] run show ?thesis
    by (simp add: client_def init_def)
qed

section \<open>The runs of search_keyword and get_link\<close>

text \<open>
  Both make one POST and read one field of the response; the call each makes is the one
  written out in \<open>search_call\<close> and \<open>link_call\<close>.
\<close>

lemma search_keyword_eq:
  "search_keyword T k c =
     (case try_request T ''POST request failed: '' (search_call k c) c of
        (Inl e, c1) \<Rightarrow> (Inl e, c1)
      | (Inr r, c1) \<Rightarrow> (data_field ''products'' r, c1))"
  by (simp add: search_keyword_def crawler_post_def search_call_def search_headers_def
      search_data_def get_headers_def dict_merge_def default_headers_def or_dict_def)

lemma get_link_eq:
  "get_link T p c =
     (case try_request T ''POST request failed: '' (link_call p c) c of
        (Inl e, c1) \<Rightarrow> (Inl e, c1)
      | (Inr r, c1) \<Rightarrow> (data_field ''shortUrl'' r, c1))"
  by (simp add: get_link_def crawler_post_def link_call_def link_headers_def
      get_headers_def dict_merge_def default_headers_def or_dict_def)

lemma search_keyword_failure:
  assumes "T (world c) (cookies c) (search_call k c) = (out, jar, w)" and "failure out = Some e"
  shows "search_keyword T k c =
           (Inl e, c\<lparr>cookies := jar,
                     logger := logger c @ [(ERROR, ''POST request failed: '', Exn e)],
                     sent := sent c @ [(search_call k c, out)], world := w\<rparr>)"
  by (simp add: search_keyword_eq
      try_request_failure [where T = T and c = c, OF assms])

lemma search_keyword_success:
  assumes "T (world c) (cookies c) (search_call k c) = (Inr r, jar, w)"
    and "failure (Inr r) = None"
  shows "search_keyword T k c =
           (data_field ''products'' r,
            c\<lparr>cookies := jar, sent := sent c @ [(search_call k c, Inr r)], world := w\<rparr>)"
  using try_request_success [where T = T and c = c and msg = "''POST request failed: ''",
      OF assms]
  by (simp add: search_keyword_eq)

lemma get_link_failure:
  assumes "T (world c) (cookies c) (link_call p c) = (out, jar, w)" and "failure out = Some e"
  shows "get_link T p c =
           (Inl e, c\<lparr>cookies := jar,
                     logger := logger c @ [(ERROR, ''POST request failed: '', Exn e)],
                     sent := sent c @ [(link_call p c, out)], world := w\<rparr>)"
  by (simp add: get_link_eq
      try_request_failure [where T = T and c = c, OF assms])

lemma get_link_success:
  assumes "T (world c) (cookies c) (link_call p c) = (Inr r, jar, w)"
    and "failure (Inr r) = None"
  shows "get_link T p c =
           (data_field ''shortUrl'' r,
            c\<lparr>cookies := jar, sent := sent c @ [(link_call p c, Inr r)], world := w\<rparr>)"
  using try_request_success [where T = T and c = c and msg = "''POST request failed: ''",
      OF assms]
  by (simp add: get_link_eq)

section \<open>Properties of search_keyword and get_link\<close>

text \<open>
  Claim C3. For every keyword \<open>k\<close>, \<^verbatim>\<open>search_keyword(k)\<close> makes a single POST, the call
  \<open>search_call k c\<close>: its body is the JSON text of
  \<open>{filter: k, page: {pageNumber: 0, size: 36}}\<close> and its header \<^verbatim>\<open>X-Token\<close> is the
  client's token. When the exchange succeeds and the response has a \<open>data.products\<close>
  field, the value returned is that field as it is, whatever it holds.
\<close>

theorem search_keyword_pass_through:
  assumes "T (world c) (cookies c) (search_call k c) = (out, jar, w)"
  shows "sent (snd (search_keyword T k c)) = sent c @ [(search_call k c, out)] \<and>
         (\<forall>r p. out = Inr r \<longrightarrow> failure out = None \<longrightarrow> data_field ''products'' r = Inr p \<longrightarrow>
                fst (search_keyword T k c) = Inr p)"
proof (cases "failure out")
  case None
  then obtain r where r: "out = Inr r" by (cases out) (auto simp: failure_def)
  from search_keyword_success [where T = T and c = c, OF assms [unfolded r]] None r show ?thesis by simp
next
  case (Some e)
  from search_keyword_failure [where T = T and c = c, OF assms Some] Some show ?thesis by auto
qed

theorem search_keyword_pass_through_witness:
  "fst (search_keyword scripted ''shoes''
         ((client [(Inr (ok_json (products_json (JArr [a_product]))), [])])
            \<lparr>token := Some ''abc123''\<rparr>))
     = Inr (JArr [a_product]) \<and>
   sent (snd (search_keyword scripted ''shoes''
         ((client [(Inr (ok_json (products_json (JArr [a_product]))), [])])
            \<lparr>token := Some ''abc123''\<rparr>)))
     = [(search_call ''shoes''
           ((client [(Inr (ok_json (products_json (JArr [a_product]))), [])])
              \<lparr>token := Some ''abc123''\<rparr>),
         Inr (ok_json (products_json (JArr [a_product]))))]"
proof -
  let ?r = "ok_json (products_json (JArr [a_product]))"
  let ?c = "(client [(Inr ?r, [])])\<lparr>token := Some ''abc123''\<rparr>"
  have t: "scripted (world ?c) (cookies ?c) (search_call ''shoes'' ?c) = (Inr ?r, [], [])"
    by (simp add: scripted_def client_def init_def dict_merge_def)
  have ok: "failure (Inr ?r) = None"
    by (simp add: failure_def raise_for_status_def ok_json_def)
  have field: "data_field ''products'' ?r = Inr (JArr [a_product])"
    by (simp add: data_field_def response_json_def ok_json_def products_json_def)
  have start: "sent ?c = []" by (simp add: client_def init_def)
  from search_keyword_pass_through [where T = scripted and c = ?c, OF t] ok field start
  show ?thesis by simp
qed

text \<open>
  Claim C4. For every product \<open>p\<close>, \<^verbatim>\<open>get_link(p)\<close> makes a single POST, the call
  \<open>link_call p c\<close>: its JSON body is \<open>{product: p}\<close> and its header \<^verbatim>\<open>X-Token\<close> is
  the client's token. When the exchange succeeds and the response has a
  \<open>data.shortUrl\<close> field, the value returned is that field.
\<close>

theorem get_link_short_url:
  assumes "T (world c) (cookies c) (link_call p c) = (out, jar, w)"
  shows "sent (snd (get_link T p c)) = sent c @ [(link_call p c, out)] \<and>
         (\<forall>r u. out = Inr r \<longrightarrow> failure out = None \<longrightarrow> data_field ''shortUrl'' r = Inr u \<longrightarrow>
                fst (get_link T p c) = Inr u)"
proof (cases "failure out")
  case None
  then obtain r where r: "out = Inr r" by (cases out) (auto simp: failure_def)
  from get_link_success [where T = T and c = c, OF assms [unfolded r]] None r show ?thesis by simp
next
  case (Some e)
  from get_link_failure [where T = T and c = c, OF assms Some] Some show ?thesis by auto
qed

theorem get_link_short_url_witness:
  "fst (get_link scripted a_product
         ((client [(Inr (ok_json (short_url_json ''https://link.coupang.com/a/b'')), [])])
            \<lparr>token := Some ''abc123''\<rparr>))
     = Inr (JStr ''https://link.coupang.com/a/b'') \<and>
   sent (snd (get_link scripted a_product
         ((client [(Inr (ok_json (short_url_json ''https://link.coupang.com/a/b'')), [])])
            \<lparr>token := Some ''abc123''\<rparr>)))
     = [(link_call a_product
           ((client [(Inr (ok_json (short_url_json ''https://link.coupang.com/a/b'')), [])])
              \<lparr>token := Some ''abc123''\<rparr>),
         Inr (ok_json (short_url_json ''https://link.coupang.com/a/b'')))]"
proof -
  let ?r = "ok_json (short_url_json ''https://link.coupang.com/a/b'')"
  let ?c = "(client [(Inr ?r, [])])\<lparr>token := Some ''abc123''\<rparr>"
  have t: "scripted (world ?c) (cookies ?c) (link_call a_product ?c) = (Inr ?r, [], [])"
    by (simp add: scripted_def client_def init_def dict_merge_def)
  have ok: "failure (Inr ?r) = None"
    by (simp add: failure_def raise_for_status_def ok_json_def)
  have field: "data_field ''shortUrl'' ?r = Inr (JStr ''https://link.coupang.com/a/b'')"
    by (simp add: data_field_def response_json_def ok_json_def short_url_json_def)
  have start: "sent ?c = []" by (simp add: client_def init_def)
  from get_link_short_url [where T = scripted and c = ?c, OF t] ok field start
  show ?thesis by simp
qed

text \<open>
  Claim C6, as stated, fails: a response \<open>{}\<close>, which lacks \<open>data.products\<close>, makes
  \<^verbatim>\<open>search_keyword\<close> raise \<^verbatim>\<open>KeyError\<close> with nothing logged.
\<close>

theorem shape_error_counterexample:
  "fst (search_keyword scripted ''shoes'' (client [(Inr (ok_json (JObj [])), [])]))
     = Inl (KeyError ''data'') \<and>
   logger (snd (search_keyword scripted ''shoes'' (client [(Inr (ok_json (JObj [])), [])]))) = []"
  by (simp add: run_defs)

text \<open>
  Claim C6, amended. For every successful response whose JSON lacks the expected shape
  (\<open>data.products\<close> in \<^verbatim>\<open>search_keyword\<close>, \<open>data.shortUrl\<close> in \<^verbatim>\<open>get_link\<close>), the
  error of the lookup is raised to the caller and nothing is logged: the log is the one
  before the call.
\<close>

theorem shape_error_raised_unlogged:
  "(T (world c) (cookies c) (search_call k c) = (Inr r, jar, w) \<longrightarrow> failure (Inr r) = None \<longrightarrow>
      data_field ''products'' r = Inl e \<longrightarrow>
      fst (search_keyword T k c) = Inl e \<and> logger (snd (search_keyword T k c)) = logger c)
   \<and> (T (world c) (cookies c) (link_call p c) = (Inr r', jar', w') \<longrightarrow> failure (Inr r') = None \<longrightarrow>
      data_field ''shortUrl'' r' = Inl e' \<longrightarrow>
      fst (get_link T p c) = Inl e' \<and> logger (snd (get_link T p c)) = logger c)"
proof (intro conjI impI)
  assume a: "T (world c) (cookies c) (search_call k c) = (Inr r, jar, w)"
    "failure (Inr r) = None" "data_field ''products'' r = Inl e"
  from search_keyword_success [where T = T and c = c, OF a(1,2)] a(3)
  show "fst (search_keyword T k c) = Inl e" "logger (snd (search_keyword T k c)) = logger c"
    by simp_all
next
  assume a: "T (world c) (cookies c) (link_call p c) = (Inr r', jar', w')"
    "failure (Inr r') = None" "data_field ''shortUrl'' r' = Inl e'"
  from get_link_success [where T = T and c = c, OF a(1,2)] a(3)
  show "fst (get_link T p c) = Inl e'" "logger (snd (get_link T p c)) = logger c"
    by simp_all
qed

theorem shape_error_raised_unlogged_witness:
  "fst (search_keyword scripted ''shoes'' (client [(Inr (ok_json (JObj [(''data'', JNull)])), [])]))
     = Inl TypeError \<and>
   logger (snd (search_keyword scripted ''shoes''
     (client [(Inr (ok_json (JObj [(''data'', JNull)])), [])]))) = [] \<and>
   fst (get_link scripted a_product
     (client [(Inr (ok_json (products_json (JArr []))), [])])) = Inl (KeyError ''shortUrl'') \<and>
   logger (snd (get_link scripted a_product
     (client [(Inr (ok_json (products_json (JArr []))), [])]))) = []"
proof -
  let ?r = "ok_json (JObj [(''data'', JNull)])"
  let ?c = "client [(Inr ?r, [])]"
  let ?r' = "ok_json (products_json (JArr []))"
  let ?c' = "client [(Inr ?r', [])]"
  have t: "scripted (world ?c) (cookies ?c) (search_call ''shoes'' ?c) = (Inr ?r, [], [])"
    by (simp add: scripted_def client_def init_def dict_merge_def)
  have ok: "failure (Inr ?r) = None"
    by (simp add: failure_def raise_for_status_def ok_json_def)
  have field: "data_field ''products'' ?r = Inl TypeError"
    by (simp add: data_field_def response_json_def ok_json_def)
  have t': "scripted (world ?c') (cookies ?c') (link_call a_product ?c') = (Inr ?r', [], [])"
    by (simp add: scripted_def client_def init_def dict_merge_def)
  have ok': "failure (Inr ?r') = None"
    by (simp add: failure_def raise_for_status_def ok_json_def)
  have field': "data_field ''shortUrl'' ?r' = Inl (KeyError ''shortUrl'')"
    by (simp add: data_field_def response_json_def ok_json_def products_json_def)
  have start: "logger ?c = []" "logger ?c' = []" by (simp_all add: client_def init_def)
  from shape_error_raised_unlogged [where T = scripted and c = ?c and k = "''shoes''"
        and r = ?r and jar = "[]" and w = "[]" and e = TypeError, THEN conjunct1]
      t ok field start
  have 1: "fst (search_keyword scripted ''shoes'' ?c) = Inl TypeError \<and>
           logger (snd (search_keyword scripted ''shoes'' ?c)) = []"
    by simp
  from shape_error_raised_unlogged [where T = scripted and c = ?c' and p = a_product
        and r' = ?r' and jar' = "[]" and w' = "[]" and e' = "KeyError ''shortUrl''",
        THEN conjunct2]
      t' ok' field' start
  have 2: "fst (get_link scripted a_product ?c') = Inl (KeyError ''shortUrl'') \<and>
           logger (snd (get_link scripted a_product ?c')) = []"
    by simp
  from 1 2 show ?thesis by simp
qed

text \<open>
  Claim C7, as stated, fails: when the server answers the search for the keyword of the
  example run with 37 products, \<^verbatim>\<open>search_keyword\<close> returns all 37.
\<close>

theorem page_size_counterexample:
  "fst (search_keyword scripted shoes
         (client [(Inr (ok_json (products_json (JArr (replicate 37 a_product)))), [])]))
     = Inr (JArr (replicate 37 a_product)) \<and>
   \<not> within_page (JArr (replicate 37 a_product))"
  by (simp add: run_defs)

text \<open>
  Claim C7, amended. For every successful response whose \<open>data.products\<close> is a sequence
  of at most 36 mapping-shaped elements, \<^verbatim>\<open>search_keyword\<close> with that keyword returns a
  sequence of at most 36 mapping-shaped elements (the one of the response).
\<close>

theorem search_shoes_page:
  assumes "T (world c) (cookies c) (search_call shoes c) = (Inr r, jar, w)"
    and "failure (Inr r) = None"
    and "data_field ''products'' r = Inr q"
    and "within_page q"
  shows "\<exists>xs. fst (search_keyword T shoes c) = Inr (JArr xs) \<and>
              length xs \<le> 36 \<and> list_all is_mapping xs"
proof -
  from assms(4) obtain xs where "q = JArr xs" "length xs \<le> 36" "list_all is_mapping xs"
    by (cases q) auto
  with search_keyword_success [where T = T and c = c, OF assms(1,2)] assms(3)
  show ?thesis by simp
qed

theorem search_shoes_page_witness:
  "\<exists>xs. fst (search_keyword scripted shoes
              (client [(Inr (ok_json (products_json (JArr [a_product, a_product]))), [])]))
          = Inr (JArr xs) \<and> length xs \<le> 36 \<and> list_all is_mapping xs"
proof -
  let ?r = "ok_json (products_json (JArr [a_product, a_product]))"
  let ?c = "client [(Inr ?r, [])]"
  have t: "scripted (world ?c) (cookies ?c) (search_call shoes ?c) = (Inr ?r, [], [])"
    by (simp add: scripted_def client_def init_def dict_merge_def)
  have ok: "failure (Inr ?r) = None"
    by (simp add: failure_def raise_for_status_def ok_json_def)
  have field: "data_field ''products'' ?r = Inr (JArr [a_product, a_product])"
    by (simp add: data_field_def response_json_def ok_json_def products_json_def)
  have page: "within_page (JArr [a_product, a_product])"
    by (simp add: a_product_def)
  from search_shoes_page [where T = scripted and c = ?c, OF t ok field page]
  show ?thesis .
qed

text \<open>The value \<^verbatim>\<open>search_keyword\<close> returns is a function of the outcome of its call,
  and the call is a function of the keyword, the token and the user agent.\<close>

lemma search_keyword_result:
  "fst (search_keyword T k c) =
     (case fst (T (world c) (cookies c) (search_call k c)) of
        Inl m \<Rightarrow> Inl (RequestException m)
      | Inr r \<Rightarrow> (case raise_for_status r of Inl e \<Rightarrow> Inl e
                  | Inr r' \<Rightarrow> data_field ''products'' r'))"
  by (auto simp: search_keyword_eq try_request_def session_call_def
      split: prod.splits sum.splits)

lemma search_keyword_frame:
  "token (snd (search_keyword T k c)) = token c"
  "user_agent (snd (search_keyword T k c)) = user_agent c"
  using try_request_frame [of T "''POST request failed: ''" "search_call k c" c]
  by (auto simp: search_keyword_eq split: prod.splits sum.splits)

text \<open>
  Claim C9. For every keyword \<open>k\<close>, two consecutive calls \<^verbatim>\<open>search_keyword(k)\<close> on the same
  client, the second starting in the state the first left, return equal results (or raise
  equal exceptions) whenever the server answers every call in the second state as it did
  in the first. Nothing the client keeps between the calls enters the result.
\<close>

theorem search_keyword_repeatable:
  assumes "search_keyword T k c = (res1, c1)"
    and "search_keyword T k c1 = (res2, c2)"
    and "\<forall>call. fst (T (world c1) (cookies c1) call) = fst (T (world c) (cookies c) call)"
  shows "res2 = res1"
proof -
  from assms(1) search_keyword_frame [of T k c]
  have "token c1 = token c" "user_agent c1 = user_agent c" by simp_all
  then have call: "search_call k c1 = search_call k c" by (simp add: search_call_def)
  have "res2 = fst (search_keyword T k c1)" using assms(2) by simp
  also have "\<dots> = fst (search_keyword T k c)"
    using assms(3) by (simp only: search_keyword_result call)
  also have "\<dots> = res1" using assms(1) by simp
  finally show ?thesis .
qed

theorem search_keyword_repeatable_witness:
  "fst (search_keyword scripted ''shoes''
     (snd (search_keyword scripted ''shoes''
        (client [(Inr (ok_json (products_json (JArr [a_product]))), []),
                 (Inr (ok_json (products_json (JArr [a_product]))), [])]))))
   = fst (search_keyword scripted ''shoes''
        (client [(Inr (ok_json (products_json (JArr [a_product]))), []),
                 (Inr (ok_json (products_json (JArr [a_product]))), [])]))"
proof -
  let ?r = "ok_json (products_json (JArr [a_product]))"
  let ?c = "client [(Inr ?r, []), (Inr ?r, [])]"
  let ?c1 = "snd (search_keyword scripted ''shoes'' ?c)"
  have 1: "search_keyword scripted ''shoes'' ?c = (fst (search_keyword scripted ''shoes'' ?c), ?c1)"
    by simp
  have 2: "search_keyword scripted ''shoes'' ?c1 =
             (fst (search_keyword scripted ''shoes'' ?c1), snd (search_keyword scripted ''shoes'' ?c1))"
    by simp
  have w: "world ?c1 = [(Inr ?r, [])]" "world ?c = [(Inr ?r, []), (Inr ?r, [])]"
    by (simp_all add: run_defs)
  have same: "\<forall>call. fst (scripted (world ?c1) (cookies ?c1) call)
                    = fst (scripted (world ?c) (cookies ?c) call)"
    unfolding w by (simp add: scripted_def)
  from search_keyword_repeatable [OF 1 2 same] show ?thesis .
qed

section \<open>Error policy\<close>

lemma login_calls_distinct:
  "login_calls c ! 0 \<noteq> login_calls c ! 1" "login_calls c ! 0 \<noteq> login_calls c ! 2"
  "login_calls c ! 1 \<noteq> login_calls c ! 2"
  "login_calls c ! 0 \<noteq> login_calls c ! Suc 0" "login_calls c ! Suc 0 \<noteq> login_calls c ! 2"
  by (simp_all add: login_calls_def LOGIN_URL_def POSTLOGIN_URL_def)

lemma failure_cases:
  "failure (Inl m) = Some (RequestException m)"
  "failure (Inr r) =
     (if 400 \<le> status_code r \<and> status_code r < 600 then Some (HTTPError (status_code r))
      else None)"
  by (simp_all add: failure_def raise_for_status_def)

lemma search_keyword_outcome:
  assumes "search_keyword T k c = (res, c')"
  shows "\<exists>out. sent c' = sent c @ [(search_call k c, out)] \<and>
           (case failure out of
              Some e \<Rightarrow> res = Inl e \<and>
                logger c' = logger c @ [(ERROR, ''POST request failed: '', Exn e)]
            | None \<Rightarrow> logger c' = logger c)"
proof -
  obtain out jar w where t: "T (world c) (cookies c) (search_call k c) = (out, jar, w)"
    by (cases "T (world c) (cookies c) (search_call k c)") auto
  show ?thesis
  proof (cases "failure out")
    case None
    then obtain r where r: "out = Inr r" by (cases out) (auto simp: failure_def)
    from search_keyword_success [where T = T and c = c, OF t [unfolded r]] None r assms
    show ?thesis by (intro exI [of _ out]) auto
  next
    case (Some e)
    from search_keyword_failure [where T = T and c = c, OF t Some] Some assms
    show ?thesis by (intro exI [of _ out]) auto
  qed
qed

lemma get_link_outcome:
  assumes "get_link T p c = (res, c')"
  shows "\<exists>out. sent c' = sent c @ [(link_call p c, out)] \<and>
           (case failure out of
              Some e \<Rightarrow> res = Inl e \<and>
                logger c' = logger c @ [(ERROR, ''POST request failed: '', Exn e)]
            | None \<Rightarrow> logger c' = logger c)"
proof -
  obtain out jar w where t: "T (world c) (cookies c) (link_call p c) = (out, jar, w)"
    by (cases "T (world c) (cookies c) (link_call p c)") auto
  show ?thesis
  proof (cases "failure out")
    case None
    then obtain r where r: "out = Inr r" by (cases out) (auto simp: failure_def)
    from get_link_success [where T = T and c = c, OF t [unfolded r]] None r assms
    show ?thesis by (intro exI [of _ out]) auto
  next
    case (Some e)
    from get_link_failure [where T = T and c = c, OF t Some] Some assms
    show ?thesis by (intro exI [of _ out]) auto
  qed
qed

text \<open>
  Claim C5, as stated, fails: a response with status 302, which is not a 2xx status, is
  not treated as a failure. Without a JSON body \<^verbatim>\<open>search_keyword\<close> raises
  \<^verbatim>\<open>JSONDecodeError\<close> with nothing logged; with a JSON body it returns the products.
\<close>

theorem redirect_status_counterexample:
  "status_code redirect = 302 \<and>
   fst (search_keyword scripted ''shoes'' (client [(Inr redirect, [])])) = Inl JSONDecodeError \<and>
   logger (snd (search_keyword scripted ''shoes'' (client [(Inr redirect, [])]))) = [] \<and>
   fst (search_keyword scripted ''shoes''
     (client [(Inr (redirect\<lparr>json_body := Some (products_json (JArr [a_product]))\<rparr>), [])]))
     = Inr (JArr [a_product]) \<and>
   logger (snd (search_keyword scripted ''shoes''
     (client [(Inr (redirect\<lparr>json_body := Some (products_json (JArr [a_product]))\<rparr>), [])])))
     = []"
  by (simp add: run_defs)

text \<open>
  Claim C5, amended. For each of \<^verbatim>\<open>login\<close>, \<^verbatim>\<open>search_keyword\<close> and \<^verbatim>\<open>get_link\<close> and
  every exchange of a run of it: when the exchange failed, that is the session call
  raised a \<^verbatim>\<open>RequestException\<close> or the status is between 400 and 599, the operation
  raises that same exception, the run has added exactly one record to the log, an
  \<^verbatim>\<open>ERROR\<close> record of that exception, and the failed exchange is the last of the run;
  no call is made twice (the calls of \<^verbatim>\<open>login\<close> are distinct, the other two make one
  call).
\<close>

theorem failed_request_logged_once_and_raised:
  "(login T c = (res, c') \<longrightarrow> sent c' = sent c @ new \<longrightarrow> (call, out) \<in> set new \<longrightarrow>
      failure out = Some e \<longrightarrow>
      res = Inl e \<and> (\<exists>msg. logger c' = logger c @ [(ERROR, msg, Exn e)]) \<and>
      last new = (call, out) \<and> distinct (map fst new))
   \<and> (search_keyword T k c = (res_s, c_s) \<longrightarrow> sent c_s = sent c @ new_s \<longrightarrow>
        (call_s, out_s) \<in> set new_s \<longrightarrow> failure out_s = Some e_s \<longrightarrow>
      res_s = Inl e_s \<and> logger c_s = logger c @ [(ERROR, ''POST request failed: '', Exn e_s)] \<and>
      new_s = [(call_s, out_s)])
   \<and> (get_link T p c = (res_g, c_g) \<longrightarrow> sent c_g = sent c @ new_g \<longrightarrow>
        (call_g, out_g) \<in> set new_g \<longrightarrow> failure out_g = Some e_g \<longrightarrow>
      res_g = Inl e_g \<and> logger c_g = logger c @ [(ERROR, ''POST request failed: '', Exn e_g)] \<and>
      new_g = [(call_g, out_g)])
   \<and> failure (Inl m) = Some (RequestException m)
   \<and> failure (Inr r) =
       (if 400 \<le> status_code r \<and> status_code r < 600 then Some (HTTPError (status_code r))
        else None)"
proof (intro conjI impI)
  assume run: "login T c = (res, c')" and new: "sent c' = sent c @ new"
    and ex: "(call, out) \<in> set new" and fail: "failure out = Some e"
  from login_outcome [OF run] new ex fail
  show "res = Inl e" "\<exists>msg. logger c' = logger c @ [(ERROR, msg, Exn e)]"
    "last new = (call, out)" "distinct (map fst new)"
    by (auto simp: login_calls_distinct)
next
  assume run: "search_keyword T k c = (res_s, c_s)" and new: "sent c_s = sent c @ new_s"
    and ex: "(call_s, out_s) \<in> set new_s" and fail: "failure out_s = Some e_s"
  from search_keyword_outcome [OF run] new ex fail
  show "res_s = Inl e_s" "logger c_s = logger c @ [(ERROR, ''POST request failed: '', Exn e_s)]"
    "new_s = [(call_s, out_s)]"
    by auto
next
  assume run: "get_link T p c = (res_g, c_g)" and new: "sent c_g = sent c @ new_g"
    and ex: "(call_g, out_g) \<in> set new_g" and fail: "failure out_g = Some e_g"
  from get_link_outcome [OF run] new ex fail
  show "res_g = Inl e_g" "logger c_g = logger c @ [(ERROR, ''POST request failed: '', Exn e_g)]"
    "new_g = [(call_g, out_g)]"
    by auto
qed (simp_all add: failure_cases)

theorem failed_request_logged_once_and_raised_witness:
  "fst (login scripted (client [(Inr ok_page, []), (Inr forbidden, [])])) = Inl (HTTPError 403) \<and>
   (\<exists>msg. logger (snd (login scripted (client [(Inr ok_page, []), (Inr forbidden, [])])))
            = [(ERROR, msg, Exn (HTTPError 403))]) \<and>
   fst (search_keyword scripted ''shoes'' (client []))
     = Inl (RequestException ''connection refused'') \<and>
   logger (snd (search_keyword scripted ''shoes'' (client [])))
     = [(ERROR, ''POST request failed: '', Exn (RequestException ''connection refused''))] \<and>
   fst (get_link scripted a_product (client [(Inr forbidden, [])])) = Inl (HTTPError 403) \<and>
   logger (snd (get_link scripted a_product (client [(Inr forbidden, [])])))
     = [(ERROR, ''POST request failed: '', Exn (HTTPError 403))]"
proof -
  let ?l = "client [(Inr ok_page, []), (Inr forbidden, [])]"
  let ?s = "client []"
  let ?g = "client [(Inr forbidden, [])]"
  let ?newl = "[(login_calls ?l ! 0, Inr ok_page), (login_calls ?l ! 1, Inr forbidden)]"
  have f403: "failure (Inr forbidden) = Some (HTTPError 403)"
    by (simp add: failure_def raise_for_status_def forbidden_def)
  have frefused: "failure (Inl ''connection refused'')
                    = Some (RequestException ''connection refused'')"
    by (simp add: failure_def)
  have empty: "logger ?l = []" "logger ?s = []" "logger ?g = []"
    by (simp_all add: client_def init_def)
  have l1: "login scripted ?l = (fst (login scripted ?l), snd (login scripted ?l))" by simp
  have l2: "sent (snd (login scripted ?l)) = sent ?l @ ?newl" by (simp add: run_defs)
  have l3: "(login_calls ?l ! 1, Inr forbidden) \<in> set ?newl" by simp
  have s1: "search_keyword scripted ''shoes'' ?s
              = (fst (search_keyword scripted ''shoes'' ?s),
                 snd (search_keyword scripted ''shoes'' ?s))" by simp
  have s2: "sent (snd (search_keyword scripted ''shoes'' ?s))
              = sent ?s @ [(search_call ''shoes'' ?s, Inl ''connection refused'')]"
    by (simp add: run_defs)
  have g1: "get_link scripted a_product ?g
              = (fst (get_link scripted a_product ?g), snd (get_link scripted a_product ?g))"
    by simp
  have g2: "sent (snd (get_link scripted a_product ?g))
              = sent ?g @ [(link_call a_product ?g, Inr forbidden)]"
    by (simp add: run_defs)
  note inst = failed_request_logged_once_and_raised
      [where T = scripted and c = ?l and res = "fst (login scripted ?l)"
        and c' = "snd (login scripted ?l)" and new = ?newl
        and call = "login_calls ?l ! 1" and out = "Inr forbidden" and e = "HTTPError 403"]
    failed_request_logged_once_and_raised
      [where T = scripted and c = ?s and k = "''shoes''"
        and res_s = "fst (search_keyword scripted ''shoes'' ?s)"
        and c_s = "snd (search_keyword scripted ''shoes'' ?s)"
        and new_s = "[(search_call ''shoes'' ?s, Inl ''connection refused'')]"
        and call_s = "search_call ''shoes'' ?s" and out_s = "Inl ''connection refused''"
        and e_s = "RequestException ''connection refused''"]
    failed_request_logged_once_and_raised
      [where T = scripted and c = ?g and p = a_product
        and res_g = "fst (get_link scripted a_product ?g)"
        and c_g = "snd (get_link scripted a_product ?g)"
        and new_g = "[(link_call a_product ?g, Inr forbidden)]"
        and call_g = "link_call a_product ?g" and out_g = "Inr forbidden"
        and e_g = "HTTPError 403"]
  from inst(1) l1 l2 l3 f403 empty(1)
  have a: "fst (login scripted ?l) = Inl (HTTPError 403) \<and>
     (\<exists>msg. logger (snd (login scripted ?l)) = [(ERROR, msg, Exn (HTTPError 403))])"
    by simp
  from inst(2) s1 s2 frefused empty(2)
  have b: "fst (search_keyword scripted ''shoes'' ?s)
             = Inl (RequestException ''connection refused'') \<and>
     logger (snd (search_keyword scripted ''shoes'' ?s))
       = [(ERROR, ''POST request failed: '', Exn (RequestException ''connection refused''))]"
    by simp
  from inst(3) g1 g2 f403 empty(3)
  have c: "fst (get_link scripted a_product ?g) = Inl (HTTPError 403) \<and>
     logger (snd (get_link scripted a_product ?g))
       = [(ERROR, ''POST request failed: '', Exn (HTTPError 403))]"
    by simp
  from a b c show ?thesis by blast
qed

end
